theory Spec2Isabelle
  imports Main
begin

section \<open>Data model\<close>

text \<open>
  The reservation engine lives in the provider component \<open>ReservationProvider\<close>
  (the reservation context) and in the list component \<open>ReservationsList\<close>.
  The durable store (Supabase) is external: its tables are part of the modelled world state,
  and each of its answers (data or error) is an input of the operation that awaits it.
\<close>

datatype PaymentStatus = not_required | pending | submitted | verified

datatype ReservationStatus = confirmed | upcoming | in_progress | completed | cancelled

text \<open>
  The source only ever tests \<open>user.role === 'admin'\<close>; every other role is \<open>member\<close>.
\<close>

datatype Role = admin | member

text \<open>
  Timestamps (\<open>created_at\<close>, \<open>payment_verified_at\<close>, the clock) are integers, the
  milliseconds that \<open>new Date(...).getTime()\<close> yields; the ISO text they travel as is not
  modelled. Calendar dates and times of day stay strings, as in the source.
\<close>

record User =
  user_uid :: string
  role :: Role

text \<open>
  A row of table \<open>reservations\<close>, with the columns the source reads and writes. The
  migration declares \<open>requires_payment\<close> and \<open>payment_status\<close> as \<open>not null\<close>, so the
  loader's defaults for them (\<open>?? false\<close>, \<open>?? 'not_required'\<close>) never apply and the
  columns are not optional here.
\<close>

record ReservationRow =
  row_id :: string
  space_id :: string
  user_id :: string
  row_date :: string
  start_time :: string
  end_time :: string
  row_event :: "string option"
  row_status :: ReservationStatus
  created_at :: int
  requires_payment :: bool
  payment_status :: PaymentStatus
  payment_proof_url :: "string option"
  payment_verified_at :: "int option"
  payment_verified_by :: "string option"

text \<open>The part of a \<open>profiles\<close> row that the provider reads: \<open>{ full_name?, phone? }\<close>.\<close>

record Profile =
  full_name :: "string option"
  phone :: "string option"

record Database =
  reservations_tbl :: "ReservationRow list"
  spaces_tbl :: "string \<rightharpoonup> string"
  profiles_tbl :: "string \<rightharpoonup> Profile"

text \<open>The client-side \<open>Reservation\<close> object built by \<open>loadReservations\<close>.\<close>

record Reservation =
  reservationId :: string
  spaceId :: string
  spaceName :: string
  userId :: string
  userName :: string
  userContact :: string
  date :: string
  startTime :: string
  endTime :: string
  event :: string
  status :: ReservationStatus
  createdAt :: int
  requiresPayment :: bool
  paymentStatus :: PaymentStatus
  paymentProofUrl :: "string option"
  paymentVerifiedAt :: "int option"
  paymentVerifiedBy :: "string option"

section \<open>Interval overlap (\<open>isTimeSlotAvailable\<close>)\<close>

text \<open>
  The predicate inside \<open>data.some(...)\<close> of \<open>isTimeSlotAvailable\<close>, on
  minutes since midnight: the request starts inside the reservation, or ends inside it, or
  contains it.
\<close>

definition overlaps :: "int \<Rightarrow> int \<Rightarrow> int \<Rightarrow> int \<Rightarrow> bool" where
  "overlaps requestStartMinutes requestEndMinutes reservationStartMinutes reservationEndMinutes =
     ((requestStartMinutes \<ge> reservationStartMinutes \<and> requestStartMinutes < reservationEndMinutes) \<or>
      (requestEndMinutes > reservationStartMinutes \<and> requestEndMinutes \<le> reservationEndMinutes) \<or>
      (requestStartMinutes \<le> reservationStartMinutes \<and> requestEndMinutes \<ge> reservationEndMinutes))"

section \<open>The store's answers and the provider's state\<close>

text \<open>
  Every call to the store resolves to data or to an error. The answers are inputs of an
  operation: whether the availability read returned rows, whether and with which generated
  id and creation time the insert was accepted, whether the update was accepted, and
  whether the read of \<open>loadReservations\<close> returned rows. \<open>now\<close> is the clock read by
  \<open>new Date()\<close>.
\<close>

datatype 'a Response = Failure string | Success 'a

record Env =
  now :: int
  slots_read_ok :: bool
  insert_outcome :: "(string \<times> int) Response"
  update_outcome :: "unit Response"
  load_read_ok :: bool

text \<open>The requests a provider operation issues to the store, in order.\<close>

datatype StoreRequest =
    SelectReservations bool
  | SelectSlots string string
  | InsertReservation
  | UpdateReservation string

text \<open>
  The provider's React state (\<open>reservations\<close>, \<open>reservationsError\<close>, the signed-in
  \<open>user\<close> of \<open>useAuth\<close>) together with the store it talks to and the log of requests
  it has issued.
\<close>

record ProviderState =
  store :: Database
  reservations :: "Reservation list"
  reservationsError :: "string option"
  user :: "User option"
  requests :: "StoreRequest list"

section \<open>Read model (\<open>loadReservations\<close>, \<open>getUserReservations\<close>)\<close>

text \<open>
  A row as \<open>select(selectFields)\<close> returns it: the reservation columns, the joined
  \<open>spaces(name)\<close>, and the joined \<open>user_profile\<close>, which only the administrator's
  \<open>selectFields\<close> asks for. The query has no filter; it is ordered by \<open>created_at\<close>,
  descending.
\<close>

record SelectedRow =
  sel_row :: ReservationRow
  spaces :: "string option"
  user_profile :: "Profile option"

definition select_reservations :: "bool \<Rightarrow> Database \<Rightarrow> SelectedRow list" where
  "select_reservations with_profile db =
     map (\<lambda>r. \<lparr>sel_row = r, spaces = spaces_tbl db (space_id r),
                user_profile = (if with_profile then profiles_tbl db (user_id r) else None)\<rparr>)
         (sort_key (\<lambda>r. - created_at r) (reservations_tbl db))"

text \<open>JavaScript's \<open>x || ''\<close> on an optional string: absent and empty both give the empty string.\<close>

definition or_empty :: "string option \<Rightarrow> string" where
  "or_empty x = (case x of None \<Rightarrow> [] | Some s \<Rightarrow> s)"

text \<open>The body of \<open>data.map(reservation => ...)\<close> in \<open>loadReservations\<close>.\<close>

definition formatReservation :: "User \<Rightarrow> SelectedRow \<Rightarrow> Reservation" where
  "formatReservation u selected =
     (let reservation = sel_row selected;
          profile = (if role u = admin then user_profile selected else None)
      in \<lparr>reservationId = row_id reservation,
          spaceId = space_id reservation,
          spaceName = or_empty (spaces selected),
          userId = user_id reservation,
          userName = or_empty (Option.bind profile full_name),
          userContact = or_empty (Option.bind profile phone),
          date = row_date reservation,
          startTime = start_time reservation,
          endTime = end_time reservation,
          event = or_empty (row_event reservation),
          status = row_status reservation,
          createdAt = created_at reservation,
          requiresPayment = requires_payment reservation,
          paymentStatus = payment_status reservation,
          paymentProofUrl = payment_proof_url reservation,
          paymentVerifiedAt = payment_verified_at reservation,
          paymentVerifiedBy = payment_verified_by reservation\<rparr>)"

definition loadReservations :: "Env \<Rightarrow> ProviderState \<Rightarrow> ProviderState" where
  "loadReservations env st =
     (case user st of
        None \<Rightarrow> st\<lparr>reservations := []\<rparr>
      | Some u \<Rightarrow>
          (let st1 = st\<lparr>requests := requests st @ [SelectReservations (role u = admin)]\<rparr>
           in if \<not> load_read_ok env
              then st1\<lparr>reservationsError :=
                     Some ''No se pudieron cargar las reservas. Por favor, intenta nuevamente.''\<rparr>
              else st1\<lparr>reservations :=
                        map (formatReservation u) (select_reservations (role u = admin) (store st)),
                      reservationsError := None\<rparr>))"

text \<open>
  \<open>getUserReservations\<close>: the requester's non-cancelled reservations, newest first
  (\<open>Array.prototype.sort\<close> is stable, as \<open>sort_key\<close> is).
\<close>

definition getUserReservations :: "ProviderState \<Rightarrow> string \<Rightarrow> Reservation list" where
  "getUserReservations st uid =
     sort_key (\<lambda>reservation. - createdAt reservation)
       (filter (\<lambda>reservation. userId reservation = uid \<and> status reservation \<noteq> cancelled)
          (reservations st))"

section \<open>Booking (\<open>isTimeSlotAvailable\<close>, \<open>addReservation\<close>)\<close>

text \<open>
  The availability query: the rows of the space and the day whose status is not
  \<open>cancelled\<close>.
\<close>

definition select_slots :: "Database \<Rightarrow> string \<Rightarrow> string \<Rightarrow> ReservationRow list" where
  "select_slots db space day =
     filter (\<lambda>r. space_id r = space \<and> row_date r = day \<and> row_status r \<noteq> cancelled)
       (reservations_tbl db)"

text \<open>
  \<open>timeToMinutes\<close> (of \<open>utils/dateUtils\<close>, which is not among the sources) is a
  parameter: every result below holds for any conversion of a time of day to minutes.
  When the read fails, \<open>data\<close> is null and the function answers \<open>true\<close>.
\<close>

definition isTimeSlotAvailable ::
  "(string \<Rightarrow> int) \<Rightarrow> Env \<Rightarrow> Database \<Rightarrow> string \<Rightarrow> string \<Rightarrow> string \<Rightarrow> string \<Rightarrow> bool" where
  "isTimeSlotAvailable timeToMinutes env db space day startT endT =
     (let data = (if slots_read_ok env then Some (select_slots db space day) else None)
      in case data of
           None \<Rightarrow> True
         | Some rows \<Rightarrow>
             if rows = [] then True
             else
               (let requestStartMinutes = timeToMinutes startT;
                    requestEndMinutes = timeToMinutes endT
                in \<not> list_ex (\<lambda>reservation.
                       overlaps requestStartMinutes requestEndMinutes
                         (timeToMinutes (start_time reservation))
                         (timeToMinutes (end_time reservation))) rows))"

text \<open>The argument of \<open>addReservation\<close>.\<close>

record ReservationData =
  new_spaceId :: string
  new_userId :: string
  new_date :: string
  new_startTime :: string
  new_endTime :: string
  new_event :: string
  new_requiresPayment :: bool

text \<open>
  The row that \<open>insert({...})\<close> of \<open>addReservation\<close> creates; the store supplies the id
  and the creation time.
\<close>

definition inserted_row :: "ReservationData \<Rightarrow> string \<Rightarrow> int \<Rightarrow> ReservationRow" where
  "inserted_row reservationData new_id created =
     (let paymentStatus' = (if new_requiresPayment reservationData then pending else not_required)
      in \<lparr>row_id = new_id,
          space_id = new_spaceId reservationData,
          user_id = new_userId reservationData,
          row_date = new_date reservationData,
          start_time = new_startTime reservationData,
          end_time = new_endTime reservationData,
          row_event = Some (new_event reservationData),
          row_status = confirmed,
          created_at = created,
          requires_payment = new_requiresPayment reservationData,
          payment_status = paymentStatus',
          payment_proof_url = None,
          payment_verified_at = None,
          payment_verified_by = None\<rparr>)"

definition addReservation ::
  "(string \<Rightarrow> int) \<Rightarrow> Env \<Rightarrow> ProviderState \<Rightarrow> ReservationData \<Rightarrow> bool \<times> ProviderState" where
  "addReservation timeToMinutes env st reservationData =
     (let st1 = st\<lparr>requests := requests st @
                  [SelectSlots (new_spaceId reservationData) (new_date reservationData)]\<rparr>
      in if \<not> isTimeSlotAvailable timeToMinutes env (store st)
                 (new_spaceId reservationData) (new_date reservationData)
                 (new_startTime reservationData) (new_endTime reservationData)
         then (False, st1)
         else
           (let st2 = st1\<lparr>requests := requests st1 @ [InsertReservation]\<rparr>
            in case insert_outcome env of
                 Success (new_id, created) \<Rightarrow>
                   (True,
                    loadReservations env
                      (st2\<lparr>store := (store st2)\<lparr>reservations_tbl :=
                          reservations_tbl (store st2) @
                            [inserted_row reservationData new_id created]\<rparr>\<rparr>))
               | Failure msg \<Rightarrow>
                   (False,
                    st2\<lparr>reservationsError :=
                      Some ''No se pudo crear la reserva. Intenta nuevamente.''\<rparr>)))"

section \<open>Payment (\<open>updateReservationPayment\<close>, \<open>handleMarkPaymentPending\<close>)\<close>

text \<open>
  The \<open>updates\<close> argument: each key may be undefined (\<open>None\<close>); a defined
  \<open>paymentProofUrl\<close> may be null.
\<close>

record PaymentUpdates =
  upd_paymentStatus :: "PaymentStatus option"
  upd_paymentProofUrl :: "string option option"

text \<open>The \<open>payload\<close> object: \<open>None\<close> is a key that was never assigned.\<close>

record Payload =
  p_payment_status :: "PaymentStatus option"
  p_payment_verified_at :: "int option option"
  p_payment_verified_by :: "string option option"
  p_payment_proof_url :: "string option option"

definition build_payload :: "int \<Rightarrow> User option \<Rightarrow> PaymentUpdates \<Rightarrow> Payload" where
  "build_payload nowMs usr updates =
     (let payload = \<lparr>p_payment_status = None, p_payment_verified_at = None,
                      p_payment_verified_by = None, p_payment_proof_url = None\<rparr>;
          payload =
            (case upd_paymentStatus updates of
               None \<Rightarrow> payload
             | Some s \<Rightarrow>
                 if s = verified
                 then payload\<lparr>p_payment_status := Some s,
                              p_payment_verified_at := Some (Some nowMs),
                              p_payment_verified_by := Some (map_option user_uid usr)\<rparr>
                 else payload\<lparr>p_payment_status := Some s,
                              p_payment_verified_at := Some None,
                              p_payment_verified_by := Some None\<rparr>)
      in case upd_paymentProofUrl updates of
           None \<Rightarrow> payload
         | Some url \<Rightarrow> payload\<lparr>p_payment_proof_url := Some url\<rparr>)"

text \<open>\<open>Object.keys(payload).length === 0\<close>.\<close>

definition payload_empty :: "Payload \<Rightarrow> bool" where
  "payload_empty payload =
     (p_payment_status payload = None \<and> p_payment_verified_at payload = None \<and>
      p_payment_verified_by payload = None \<and> p_payment_proof_url payload = None)"

text \<open>\<open>update(payload).eq('id', id)\<close>: the assigned keys overwrite the columns of the rows with that id.\<close>

definition apply_payload :: "Payload \<Rightarrow> ReservationRow \<Rightarrow> ReservationRow" where
  "apply_payload payload r =
     r\<lparr>payment_status := (case p_payment_status payload of None \<Rightarrow> payment_status r | Some s \<Rightarrow> s),
       payment_verified_at :=
         (case p_payment_verified_at payload of None \<Rightarrow> payment_verified_at r | Some t \<Rightarrow> t),
       payment_verified_by :=
         (case p_payment_verified_by payload of None \<Rightarrow> payment_verified_by r | Some b \<Rightarrow> b),
       payment_proof_url :=
         (case p_payment_proof_url payload of None \<Rightarrow> payment_proof_url r | Some url \<Rightarrow> url)\<rparr>"

definition update_rows :: "Payload \<Rightarrow> string \<Rightarrow> Database \<Rightarrow> Database" where
  "update_rows payload rid db =
     db\<lparr>reservations_tbl :=
          map (\<lambda>r. if row_id r = rid then apply_payload payload r else r) (reservations_tbl db)\<rparr>"

text \<open>
  The result is the message of the thrown error, if any, and the state. An empty error
  message is replaced by the default text (\<open>error.message || '...'\<close>).
\<close>

definition updateReservationPayment ::
  "Env \<Rightarrow> ProviderState \<Rightarrow> string \<Rightarrow> PaymentUpdates \<Rightarrow> string option \<times> ProviderState" where
  "updateReservationPayment env st rid updates =
     (let payload = build_payload (now env) (user st) updates
      in if payload_empty payload then (None, st)
         else
           (let st1 = st\<lparr>requests := requests st @ [UpdateReservation rid]\<rparr>
            in case update_outcome env of
                 Failure msg \<Rightarrow>
                   (Some (if msg = [] then ''No se pudo actualizar el estado de pago.'' else msg), st1)
               | Success _ \<Rightarrow>
                   (None, loadReservations env (st1\<lparr>store := update_rows payload rid (store st1)\<rparr>))))"

text \<open>
  \<open>handleMarkPaymentPending\<close> of the list component: the result is the error message it
  shows, or \<open>None\<close> when it reports success.
\<close>

definition handleMarkPaymentPending ::
  "Env \<Rightarrow> ProviderState \<Rightarrow> string \<Rightarrow> string option \<times> ProviderState" where
  "handleMarkPaymentPending env st rid =
     updateReservationPayment env st rid
       \<lparr>upd_paymentStatus = Some pending, upd_paymentProofUrl = None\<rparr>"

section \<open>Cancellation rule (\<open>canCancelReservation\<close>)\<close>

text \<open>
  Modelled from the spec: \<open>isWithin24Hours\<close> of \<open>utils/dateUtils\<close> is not among the
  sources. The spec's rule is that a reservation may not be cancelled when "its start is
  less than 24 hours from the current instant". The start instant of a date and a time of
  day (in milliseconds) is the parameter \<open>startInstant\<close>; \<open>nowMs\<close> is the clock.
\<close>

definition isWithin24Hours :: "(string \<Rightarrow> string \<Rightarrow> int) \<Rightarrow> int \<Rightarrow> string \<Rightarrow> string \<Rightarrow> bool" where
  "isWithin24Hours startInstant nowMs day startT =
     (startInstant day startT - nowMs < 24 * 60 * 60 * 1000)"

definition canCancelReservation ::
  "(string \<Rightarrow> string \<Rightarrow> int) \<Rightarrow> int \<Rightarrow> Reservation \<Rightarrow> bool" where
  "canCancelReservation startInstant nowMs reservation =
     (if status reservation = cancelled \<or> status reservation = completed then False
      else \<not> isWithin24Hours startInstant nowMs (date reservation) (startTime reservation))"

section \<open>Example data\<close>

text \<open>
  A small store used to run the operations on concrete inputs: a free space \<open>s1\<close> booked
  by \<open>u1\<close> from 09:00 to 10:00, and a paid space \<open>s2\<close> booked by \<open>u2\<close> whose payment
  has been verified by the administrator \<open>a1\<close>.
\<close>

definition demo_timeToMinutes :: "string \<Rightarrow> int" where
  "demo_timeToMinutes s =
     (case map_of [(''09:00'', 540), (''09:30'', 570), (''10:00'', 600), (''10:30'', 630),
                   (''11:00'', 660), (''14:00'', 840), (''15:00'', 900)] s of
        None \<Rightarrow> 0 | Some m \<Rightarrow> m)"

definition demo_free_row :: ReservationRow where
  "demo_free_row =
     \<lparr>row_id = ''r1'', space_id = ''s1'', user_id = ''u1'', row_date = ''2025-06-01'',
      start_time = ''09:00'', end_time = ''10:00'', row_event = Some ''Asamblea'',
      row_status = confirmed, created_at = 1000, requires_payment = False,
      payment_status = not_required, payment_proof_url = None,
      payment_verified_at = None, payment_verified_by = None\<rparr>"

definition demo_paid_row :: ReservationRow where
  "demo_paid_row =
     \<lparr>row_id = ''r2'', space_id = ''s2'', user_id = ''u2'', row_date = ''2025-06-01'',
      start_time = ''14:00'', end_time = ''15:00'', row_event = None,
      row_status = confirmed, created_at = 2000, requires_payment = True,
      payment_status = verified, payment_proof_url = Some ''https://proofs/r2.png'',
      payment_verified_at = Some 2500, payment_verified_by = Some ''a1''\<rparr>"

definition demo_db :: Database where
  "demo_db =
     \<lparr>reservations_tbl = [demo_free_row, demo_paid_row],
      spaces_tbl = [''s1'' \<mapsto> ''Salon'', ''s2'' \<mapsto> ''Cancha''],
      profiles_tbl = [''u1'' \<mapsto> \<lparr>full_name = Some ''Ana'', phone = Some ''555-0101''\<rparr>,
                      ''u2'' \<mapsto> \<lparr>full_name = Some ''Luis'', phone = None\<rparr>]\<rparr>"

definition demo_admin :: User where
  "demo_admin = \<lparr>user_uid = ''a1'', role = admin\<rparr>"

definition demo_member :: User where
  "demo_member = \<lparr>user_uid = ''u1'', role = member\<rparr>"

definition demo_state :: "User option \<Rightarrow> ProviderState" where
  "demo_state usr =
     \<lparr>store = demo_db, reservations = [], reservationsError = None, user = usr, requests = []\<rparr>"

definition demo_env :: Env where
  "demo_env =
     \<lparr>now = 5000, slots_read_ok = True, insert_outcome = Success (''r3'', 3000),
      update_outcome = Success (), load_read_ok = True\<rparr>"

definition demo_request :: "string \<Rightarrow> string \<Rightarrow> bool \<Rightarrow> ReservationData" where
  "demo_request startT endT pay =
     \<lparr>new_spaceId = ''s1'', new_userId = ''u2'', new_date = ''2025-06-01'',
      new_startTime = startT, new_endTime = endT, new_event = ''Reunion'',
      new_requiresPayment = pay\<rparr>"

definition demo_reservation :: Reservation where
  "demo_reservation =
     formatReservation demo_member
       \<lparr>sel_row = demo_free_row, spaces = Some ''Salon'', user_profile = None\<rparr>"

section \<open>Auxiliary facts\<close>

lemmas demo_defs = demo_timeToMinutes_def demo_free_row_def demo_paid_row_def demo_db_def
  demo_admin_def demo_member_def demo_state_def demo_env_def demo_request_def
  demo_reservation_def


lemma overlaps_proper_iff:
  "rs < re \<Longrightarrow> es < ee \<Longrightarrow> overlaps rs re es ee = (rs < ee \<and> es < re)"
  unfolding overlaps_def by arith

lemma store_loadReservations [simp]: "store (loadReservations env st) = store st"
  by (simp add: loadReservations_def Let_def split: option.splits)

lemmas payment_run_defs = updateReservationPayment_def handleMarkPaymentPending_def
  build_payload_def payload_empty_def update_rows_def apply_payload_def
  loadReservations_def select_reservations_def formatReservation_def or_empty_def Let_def

lemmas booking_run_defs = addReservation_def isTimeSlotAvailable_def select_slots_def
  overlaps_def inserted_row_def Let_def

subsection \<open>Payload and update\<close>

lemma updateReservationPayment_ok_iff:
  "upd_paymentStatus updates = Some s \<Longrightarrow>
   (fst (updateReservationPayment env st rid updates) = None) = (update_outcome env = Success ())"
  by (auto simp: updateReservationPayment_def build_payload_def payload_empty_def Let_def
           split: Response.splits option.splits)

lemma apply_payload_empty: "payload_empty p \<Longrightarrow> apply_payload p r = r"
  by (simp add: payload_empty_def apply_payload_def)

lemma update_rows_empty: "payload_empty p \<Longrightarrow> update_rows p rid db = db"
  by (simp add: update_rows_def apply_payload_empty map_idI)

lemma build_payload_status:
  assumes "upd_paymentStatus updates = Some s"
  shows "p_payment_status (build_payload n usr updates) = Some s"
    and "p_payment_verified_at (build_payload n usr updates) =
           Some (if s = verified then Some n else None)"
    and "p_payment_verified_by (build_payload n usr updates) =
           Some (if s = verified then map_option user_uid usr else None)"
    and "p_payment_proof_url (build_payload n usr updates) = upd_paymentProofUrl updates"
  using assms by (simp_all add: build_payload_def Let_def split: option.splits)

lemma apply_payload_sel:
  "payment_status (apply_payload p r) =
     (case p_payment_status p of None \<Rightarrow> payment_status r | Some s \<Rightarrow> s)"
  "payment_verified_at (apply_payload p r) =
     (case p_payment_verified_at p of None \<Rightarrow> payment_verified_at r | Some t \<Rightarrow> t)"
  "payment_verified_by (apply_payload p r) =
     (case p_payment_verified_by p of None \<Rightarrow> payment_verified_by r | Some b \<Rightarrow> b)"
  "payment_proof_url (apply_payload p r) =
     (case p_payment_proof_url p of None \<Rightarrow> payment_proof_url r | Some u \<Rightarrow> u)"
  "requires_payment (apply_payload p r) = requires_payment r"
  "row_id (apply_payload p r) = row_id r"
  by (simp_all add: apply_payload_def)

lemma updateReservationPayment_store:
  assumes "fst (updateReservationPayment env st rid updates) = None"
  shows "store (snd (updateReservationPayment env st rid updates)) =
     update_rows (build_payload (now env) (user st) updates) rid (store st)"
proof (cases "payload_empty (build_payload (now env) (user st) updates)")
  case True
  then show ?thesis
    by (simp add: updateReservationPayment_def update_rows_empty)
next
  case False
  with assms show ?thesis
    by (auto simp: updateReservationPayment_def Let_def split: Response.splits)
qed

lemma update_rows_tbl:
  "reservations_tbl (update_rows p rid db) =
     map (\<lambda>r. if row_id r = rid then apply_payload p r else r) (reservations_tbl db)"
  by (simp add: update_rows_def)

lemma map_sel_update_rows:
  "map requires_payment (reservations_tbl (update_rows p rid db)) = map requires_payment (reservations_tbl db)"
  "map row_id (reservations_tbl (update_rows p rid db)) = map row_id (reservations_tbl db)"
  by (simp_all add: update_rows_tbl apply_payload_sel)

lemma updateReservationPayment_fst:
  "fst (updateReservationPayment env st rid updates) =
     (if payload_empty (build_payload (now env) (user st) updates) then None
      else case update_outcome env of
             Failure msg \<Rightarrow> Some (if msg = [] then ''No se pudo actualizar el estado de pago.'' else msg)
           | Success x \<Rightarrow> None)"
  by (simp add: updateReservationPayment_def Let_def split: Response.splits)

lemma updateReservationPayment_store_failed:
  "fst (updateReservationPayment env st rid updates) \<noteq> None \<Longrightarrow>
   store (snd (updateReservationPayment env st rid updates)) = store st"
  by (auto simp: updateReservationPayment_def Let_def split: Response.splits if_splits)

lemma apply_payload_flag:
  "apply_payload p (r\<lparr>requires_payment := b\<rparr>) = (apply_payload p r)\<lparr>requires_payment := b\<rparr>"
  by (cases r) (simp add: apply_payload_def split: option.splits)

lemma update_rows_flags:
  "reservations_tbl (update_rows p rid
      (db\<lparr>reservations_tbl := map (\<lambda>r. r\<lparr>requires_payment := b\<rparr>) (reservations_tbl db)\<rparr>)) =
   map (\<lambda>r. r\<lparr>requires_payment := b\<rparr>) (reservations_tbl (update_rows p rid db))"
  by (simp add: update_rows_def apply_payload_flag)

subsection \<open>Availability\<close>

lemma isTimeSlotAvailable_iff:
  "slots_read_ok env \<Longrightarrow>
   isTimeSlotAvailable ttm env db sp day s e \<longleftrightarrow>
     \<not> (\<exists>r \<in> set (reservations_tbl db).
          space_id r = sp \<and> row_date r = day \<and> row_status r \<noteq> cancelled \<and>
          overlaps (ttm s) (ttm e) (ttm (start_time r)) (ttm (end_time r)))"
  by (auto simp: isTimeSlotAvailable_def select_slots_def list_ex_iff Let_def filter_empty_conv)

text \<open>When the availability read fails the slot counts as available, whatever the table holds.\<close>

lemma isTimeSlotAvailable_read_failed:
  "\<not> slots_read_ok env \<Longrightarrow> isTimeSlotAvailable ttm env db sp day s e"
  by (simp add: isTimeSlotAvailable_def)

subsection \<open>Read model\<close>

lemma reservations_loadReservations:
  "user st = Some u \<Longrightarrow> load_read_ok env \<Longrightarrow>
   reservations (loadReservations env st) =
     map (formatReservation u) (select_reservations (role u = admin) (store st))"
  by (simp add: loadReservations_def Let_def)

lemma formatReservation_userId: "userId (formatReservation u x) = user_id (sel_row x)"
  by (simp add: formatReservation_def Let_def)

lemma formatReservation_member:
  "role u = member \<Longrightarrow> userName (formatReservation u x) = [] \<and> userContact (formatReservation u x) = []"
  by (simp add: formatReservation_def Let_def or_empty_def)

lemma formatReservation_admin:
  "role u = admin \<Longrightarrow>
     userName (formatReservation u x) = or_empty (Option.bind (user_profile x) full_name) \<and>
     userContact (formatReservation u x) = or_empty (Option.bind (user_profile x) phone)"
  by (simp add: formatReservation_def Let_def)

lemma select_reservations_profiles:
  "select_reservations False (db\<lparr>profiles_tbl := p\<rparr>) = select_reservations False db"
  by (simp add: select_reservations_def)


lemma formatReservation_sel:
  "reservationId (formatReservation u x) = row_id (sel_row x)"
  "status (formatReservation u x) = row_status (sel_row x)"
  "createdAt (formatReservation u x) = created_at (sel_row x)"
  by (simp_all add: formatReservation_def Let_def)

lemma getUserReservations_loadReservations:
  assumes "user st = Some u" and "load_read_ok env"
  shows "getUserReservations (loadReservations env st) uid =
     map (formatReservation u)
       (map (\<lambda>r. \<lparr>sel_row = r, spaces = spaces_tbl (store st) (space_id r),
                   user_profile = (if role u = admin then profiles_tbl (store st) (user_id r) else None)\<rparr>)
          (sort_key (\<lambda>r. - created_at r)
             (filter (\<lambda>r. user_id r = uid \<and> row_status r \<noteq> cancelled) (reservations_tbl (store st)))))"
proof -
  let ?J = "\<lambda>r. \<lparr>sel_row = r, spaces = spaces_tbl (store st) (space_id r),
                   user_profile = (if role u = admin then profiles_tbl (store st) (user_id r) else None)\<rparr>"
  let ?F = "\<lambda>r. formatReservation u (?J r)"
  let ?k = "\<lambda>r. - created_at r"
  let ?Q = "\<lambda>r. user_id r = uid \<and> row_status r \<noteq> cancelled"
  let ?ys = "sort_key ?k (filter ?Q (reservations_tbl (store st)))"
  have load: "reservations (loadReservations env st) = map ?F (sort_key ?k (reservations_tbl (store st)))"
    unfolding reservations_loadReservations [OF assms] select_reservations_def by simp
  have flt: "filter (\<lambda>reservation. userId reservation = uid \<and> status reservation \<noteq> cancelled)
               (map ?F (sort_key ?k (reservations_tbl (store st)))) = map ?F ?ys"
    by (simp add: filter_map o_def formatReservation_userId formatReservation_sel filter_sort)
  have keys: "map (\<lambda>reservation. - createdAt reservation) (map ?F ?ys) = map ?k ?ys"
    by (simp add: o_def formatReservation_sel)
  have srt: "sort_key (\<lambda>reservation. - createdAt reservation) (map ?F ?ys) = map ?F ?ys"
    by (rule sort_key_id_if_sorted) (simp only: keys sorted_sort_key)
  show ?thesis
    unfolding getUserReservations_def load flt srt by simp
qed

section \<open>The overlap predicate\<close>

text \<open>
  Claim C2. The overlap predicate treats intervals as half-open: two intervals (each with
  its end strictly after its start) of which one ends at the minute \<open>t\<close> where the other
  starts do not overlap, whichever of the two is the request; in particular
  09:00-10:00 against 10:00-11:00 does not overlap and 09:00-10:30 against 10:00-11:00 does.
\<close>

theorem overlaps_half_open:
  "(a < t \<and> t < b \<longrightarrow> \<not> overlaps a t t b \<and> \<not> overlaps t b a t) \<and>
   \<not> overlaps 540 600 600 660 \<and> overlaps 540 630 600 660"
  unfolding overlaps_def by simp

theorem overlaps_half_open_witness:
  "(540::int) < 600 \<and> (600::int) < 660 \<and>
   \<not> overlaps 540 600 600 660 \<and> \<not> overlaps 600 660 540 600"
  using overlaps_half_open [of 540 600 660] by simp

text \<open>
  Claim C8. The three-disjunct overlap predicate is symmetric on intervals whose end is
  strictly after their start.
\<close>

theorem overlaps_symmetric:
  "a1 < a2 \<Longrightarrow> b1 < b2 \<Longrightarrow> overlaps a1 a2 b1 b2 = overlaps b1 b2 a1 a2"
  by (auto simp: overlaps_proper_iff)

theorem overlaps_symmetric_witness:
  "(540::int) < 630 \<and> (600::int) < 660 \<and> overlaps 540 630 600 660 = overlaps 600 660 540 630"
  using overlaps_symmetric [of 540 630 600 660] by simp

section \<open>Booking\<close>

text \<open>
  Claim C1, as the code has it. Provided the availability read returns rows: when some
  non-cancelled reservation of the same space and day overlaps the request,
  \<open>addReservation\<close> returns false having issued only that read, so the store, the read
  model and the error text are as before; when none does, the insert is issued after the
  read, and if the store accepts it the result is true, the table is the old one followed
  by the new row and the read model is refreshed by \<open>loadReservations\<close>, while if the
  store rejects it the result is false, \<open>reservationsError\<close> is set, nothing is
  persisted and the read model is not refreshed.
\<close>

theorem addReservation_slot_check:
  assumes "slots_read_ok env"
  shows
   "((\<exists>r \<in> set (reservations_tbl (store st)).
        space_id r = new_spaceId rd \<and> row_date r = new_date rd \<and> row_status r \<noteq> cancelled \<and>
        overlaps (ttm (new_startTime rd)) (ttm (new_endTime rd))
                 (ttm (start_time r)) (ttm (end_time r))) \<longrightarrow>
       addReservation ttm env st rd =
         (False, st\<lparr>requests := requests st @ [SelectSlots (new_spaceId rd) (new_date rd)]\<rparr>)) \<and>
    (\<not> (\<exists>r \<in> set (reservations_tbl (store st)).
        space_id r = new_spaceId rd \<and> row_date r = new_date rd \<and> row_status r \<noteq> cancelled \<and>
        overlaps (ttm (new_startTime rd)) (ttm (new_endTime rd))
                 (ttm (start_time r)) (ttm (end_time r))) \<longrightarrow>
       (\<forall>new_id created. insert_outcome env = Success (new_id, created) \<longrightarrow>
          addReservation ttm env st rd =
            (True,
             loadReservations env
               (st\<lparr>requests := requests st @
                     [SelectSlots (new_spaceId rd) (new_date rd), InsertReservation],
                   store := (store st)\<lparr>reservations_tbl :=
                     reservations_tbl (store st) @ [inserted_row rd new_id created]\<rparr>\<rparr>)) \<and>
          fst (addReservation ttm env st rd) \<and>
          store (snd (addReservation ttm env st rd)) =
            (store st)\<lparr>reservations_tbl :=
               reservations_tbl (store st) @ [inserted_row rd new_id created]\<rparr>) \<and>
       (\<forall>msg. insert_outcome env = Failure msg \<longrightarrow>
          addReservation ttm env st rd =
            (False,
             st\<lparr>requests := requests st @
                   [SelectSlots (new_spaceId rd) (new_date rd), InsertReservation],
                 reservationsError :=
                   Some ''No se pudo crear la reserva. Intenta nuevamente.''\<rparr>) \<and>
          \<not> fst (addReservation ttm env st rd) \<and>
          store (snd (addReservation ttm env st rd)) = store st \<and>
          reservations (snd (addReservation ttm env st rd)) = reservations st))"
proof -
  define clash where "clash \<longleftrightarrow> (\<exists>r \<in> set (reservations_tbl (store st)).
        space_id r = new_spaceId rd \<and> row_date r = new_date rd \<and> row_status r \<noteq> cancelled \<and>
        overlaps (ttm (new_startTime rd)) (ttm (new_endTime rd))
                 (ttm (start_time r)) (ttm (end_time r)))"
  have avail: "isTimeSlotAvailable ttm env (store st) (new_spaceId rd) (new_date rd)
                 (new_startTime rd) (new_endTime rd) = (\<not> clash)"
    unfolding clash_def by (rule isTimeSlotAvailable_iff [OF assms])
  have busy: "addReservation ttm env st rd =
         (False, st\<lparr>requests := requests st @ [SelectSlots (new_spaceId rd) (new_date rd)]\<rparr>)"
    if clash
    using that by (simp add: addReservation_def avail)
  have accepted_eq: "addReservation ttm env st rd =
            (True,
             loadReservations env
               (st\<lparr>requests := requests st @
                     [SelectSlots (new_spaceId rd) (new_date rd), InsertReservation],
                   store := (store st)\<lparr>reservations_tbl :=
                     reservations_tbl (store st) @ [inserted_row rd new_id created]\<rparr>\<rparr>))"
    if "\<not> clash" "insert_outcome env = Success (new_id, created)" for new_id created
    using that by (simp add: addReservation_def avail Let_def)
  have accepted: "fst (addReservation ttm env st rd) \<and>
          store (snd (addReservation ttm env st rd)) =
            (store st)\<lparr>reservations_tbl :=
               reservations_tbl (store st) @ [inserted_row rd new_id created]\<rparr>"
    if "\<not> clash" "insert_outcome env = Success (new_id, created)" for new_id created
    unfolding accepted_eq [OF that] by simp
  have rejected_eq: "addReservation ttm env st rd =
            (False,
             st\<lparr>requests := requests st @
                   [SelectSlots (new_spaceId rd) (new_date rd), InsertReservation],
                 reservationsError :=
                   Some ''No se pudo crear la reserva. Intenta nuevamente.''\<rparr>)"
    if "\<not> clash" "insert_outcome env = Failure msg" for msg
    using that by (simp add: addReservation_def avail Let_def)
  have rejected: "\<not> fst (addReservation ttm env st rd) \<and>
          store (snd (addReservation ttm env st rd)) = store st \<and>
          reservations (snd (addReservation ttm env st rd)) = reservations st"
    if "\<not> clash" "insert_outcome env = Failure msg" for msg
    unfolding rejected_eq [OF that] by simp
  from busy accepted_eq accepted rejected_eq rejected show ?thesis
    unfolding clash_def by blast
qed

theorem addReservation_slot_check_witness:
  "slots_read_ok demo_env \<and>
   addReservation demo_timeToMinutes demo_env (demo_state (Some demo_member))
       (demo_request ''09:30'' ''10:30'' False) =
     (False, (demo_state (Some demo_member))\<lparr>requests := [SelectSlots ''s1'' ''2025-06-01'']\<rparr>) \<and>
   fst (addReservation demo_timeToMinutes demo_env (demo_state (Some demo_member))
       (demo_request ''10:00'' ''11:00'' False)) \<and>
   reservations_tbl (store (snd (addReservation demo_timeToMinutes demo_env (demo_state (Some demo_member))
       (demo_request ''10:00'' ''11:00'' False)))) =
     [demo_free_row, demo_paid_row, inserted_row (demo_request ''10:00'' ''11:00'' False) ''r3'' 3000] \<and>
   requests (snd (addReservation demo_timeToMinutes demo_env (demo_state (Some demo_member))
       (demo_request ''10:00'' ''11:00'' False))) =
     [SelectSlots ''s1'' ''2025-06-01'', InsertReservation, SelectReservations False] \<and>
   map reservationId (reservations (snd (addReservation demo_timeToMinutes demo_env
       (demo_state (Some demo_member)) (demo_request ''10:00'' ''11:00'' False)))) =
     [''r3'', ''r2'', ''r1'']"
proof -
  have ok: "slots_read_ok demo_env" by (simp add: demo_env_def)
  have ins: "insert_outcome demo_env = Success (''r3'', 3000)" by (simp add: demo_env_def)
  have clash: "\<exists>r \<in> set (reservations_tbl (store (demo_state (Some demo_member)))).
        space_id r = new_spaceId (demo_request ''09:30'' ''10:30'' False) \<and>
        row_date r = new_date (demo_request ''09:30'' ''10:30'' False) \<and>
        row_status r \<noteq> cancelled \<and>
        overlaps (demo_timeToMinutes (new_startTime (demo_request ''09:30'' ''10:30'' False)))
                 (demo_timeToMinutes (new_endTime (demo_request ''09:30'' ''10:30'' False)))
                 (demo_timeToMinutes (start_time r)) (demo_timeToMinutes (end_time r))"
    by (simp add: demo_defs overlaps_def)
  have free: "\<not> (\<exists>r \<in> set (reservations_tbl (store (demo_state (Some demo_member)))).
        space_id r = new_spaceId (demo_request ''10:00'' ''11:00'' False) \<and>
        row_date r = new_date (demo_request ''10:00'' ''11:00'' False) \<and>
        row_status r \<noteq> cancelled \<and>
        overlaps (demo_timeToMinutes (new_startTime (demo_request ''10:00'' ''11:00'' False)))
                 (demo_timeToMinutes (new_endTime (demo_request ''10:00'' ''11:00'' False)))
                 (demo_timeToMinutes (start_time r)) (demo_timeToMinutes (end_time r)))"
    by (simp add: demo_defs overlaps_def)
  have tbl: "reservations_tbl (store (demo_state (Some demo_member))) = [demo_free_row, demo_paid_row]"
    "requests (demo_state (Some demo_member)) = []"
    by (simp_all add: demo_state_def demo_db_def)
  have rq: "new_spaceId (demo_request ''09:30'' ''10:30'' False) = ''s1''"
    "new_date (demo_request ''09:30'' ''10:30'' False) = ''2025-06-01''"
    by (simp_all add: demo_request_def)
  have a: "addReservation demo_timeToMinutes demo_env (demo_state (Some demo_member))
       (demo_request ''09:30'' ''10:30'' False) =
     (False, (demo_state (Some demo_member))\<lparr>requests := [SelectSlots ''s1'' ''2025-06-01'']\<rparr>)"
    using mp [OF conjunct1 [OF addReservation_slot_check [OF ok, of "demo_state (Some demo_member)"
         "demo_request ''09:30'' ''10:30'' False" demo_timeToMinutes]] clash]
    by (simp add: tbl rq)
  have b: "addReservation demo_timeToMinutes demo_env (demo_state (Some demo_member))
       (demo_request ''10:00'' ''11:00'' False) =
     (True,
      loadReservations demo_env
        ((demo_state (Some demo_member))
           \<lparr>requests := requests (demo_state (Some demo_member)) @
              [SelectSlots (new_spaceId (demo_request ''10:00'' ''11:00'' False))
                 (new_date (demo_request ''10:00'' ''11:00'' False)), InsertReservation],
            store := (store (demo_state (Some demo_member)))\<lparr>reservations_tbl :=
              reservations_tbl (store (demo_state (Some demo_member))) @
                [inserted_row (demo_request ''10:00'' ''11:00'' False) ''r3'' 3000]\<rparr>\<rparr>))"
    using mp [OF conjunct2 [OF addReservation_slot_check [OF ok, of "demo_state (Some demo_member)"
         "demo_request ''10:00'' ''11:00'' False" demo_timeToMinutes]] free] ins
    by blast
  have c: "fst (addReservation demo_timeToMinutes demo_env (demo_state (Some demo_member))
       (demo_request ''10:00'' ''11:00'' False))"
    unfolding b by simp
  have d: "reservations_tbl (store (snd (addReservation demo_timeToMinutes demo_env
       (demo_state (Some demo_member)) (demo_request ''10:00'' ''11:00'' False)))) =
     [demo_free_row, demo_paid_row, inserted_row (demo_request ''10:00'' ''11:00'' False) ''r3'' 3000]"
    unfolding b by (simp add: tbl)
  have e: "requests (snd (addReservation demo_timeToMinutes demo_env (demo_state (Some demo_member))
       (demo_request ''10:00'' ''11:00'' False))) =
     [SelectSlots ''s1'' ''2025-06-01'', InsertReservation, SelectReservations False]"
    unfolding b by (simp add: loadReservations_def demo_defs Let_def)
  have f: "map reservationId (reservations (snd (addReservation demo_timeToMinutes demo_env
       (demo_state (Some demo_member)) (demo_request ''10:00'' ''11:00'' False)))) =
     [''r3'', ''r2'', ''r1'']"
    unfolding b
    by (simp add: loadReservations_def select_reservations_def formatReservation_def
          inserted_row_def demo_defs Let_def)
  from ok a c d e f show ?thesis by blast
qed

text \<open>
  Claim C1 as stated fails where the store rejects the insert: the request 10:00-11:00
  overlaps no reservation of space \<open>s1\<close>, yet the result is false and the table is
  unchanged.
\<close>

theorem addReservation_insert_rejected_counterexample:
  "slots_read_ok (demo_env\<lparr>insert_outcome := Failure ''connection lost''\<rparr>) \<and>
   reservations_tbl (store (demo_state (Some demo_member))) = [demo_free_row, demo_paid_row] \<and>
   space_id demo_paid_row \<noteq> new_spaceId (demo_request ''10:00'' ''11:00'' False) \<and>
   \<not> overlaps (demo_timeToMinutes ''10:00'') (demo_timeToMinutes ''11:00'')
       (demo_timeToMinutes (start_time demo_free_row)) (demo_timeToMinutes (end_time demo_free_row)) \<and>
   addReservation demo_timeToMinutes (demo_env\<lparr>insert_outcome := Failure ''connection lost''\<rparr>)
      (demo_state (Some demo_member)) (demo_request ''10:00'' ''11:00'' False) =
     (False,
      (demo_state (Some demo_member))
        \<lparr>reservationsError := Some ''No se pudo crear la reserva. Intenta nuevamente.'',
         requests := [SelectSlots ''s1'' ''2025-06-01'', InsertReservation]\<rparr>)"
  by (simp add: booking_run_defs demo_defs)

section \<open>Creation\<close>

text \<open>
  Claim C3. Every reservation that \<open>addReservation\<close> creates is appended to the table with
  \<open>requires_payment\<close> equal to the flag of the request, payment status \<open>pending\<close> when
  the flag is set and \<open>not_required\<close> otherwise, status \<open>confirmed\<close>, and no proof URL,
  verification time or verifier.
\<close>

theorem addReservation_initial_payment:
  assumes "fst (addReservation timeToMinutes env st reservationData)"
  shows "\<exists>row. reservations_tbl (store (snd (addReservation timeToMinutes env st reservationData))) =
                 reservations_tbl (store st) @ [row] \<and>
               requires_payment row = new_requiresPayment reservationData \<and>
               payment_status row =
                 (if new_requiresPayment reservationData then pending else not_required) \<and>
               row_status row = confirmed \<and>
               payment_proof_url row = None \<and> payment_verified_at row = None \<and>
               payment_verified_by row = None"
  using assms
  by (auto simp: addReservation_def Let_def inserted_row_def
           split: Response.splits prod.splits if_splits)

theorem addReservation_initial_payment_witness:
  "fst (addReservation demo_timeToMinutes demo_env (demo_state (Some demo_member))
          (demo_request ''10:00'' ''11:00'' True)) \<and>
   (\<exists>row. reservations_tbl (store (snd (addReservation demo_timeToMinutes demo_env
               (demo_state (Some demo_member)) (demo_request ''10:00'' ''11:00'' True)))) =
            [demo_free_row, demo_paid_row] @ [row] \<and>
          requires_payment row \<and> payment_status row = pending \<and> row_status row = confirmed \<and>
          payment_proof_url row = None \<and> payment_verified_at row = None \<and>
          payment_verified_by row = None)"
proof -
  have booked:
    "fst (addReservation demo_timeToMinutes demo_env (demo_state (Some demo_member))
            (demo_request ''10:00'' ''11:00'' True))"
    by (simp add: addReservation_def isTimeSlotAvailable_def select_slots_def overlaps_def
          demo_defs Let_def)
  have tbl: "reservations_tbl (store (demo_state (Some demo_member))) = [demo_free_row, demo_paid_row]"
    by (simp add: demo_state_def demo_db_def)
  have pay: "new_requiresPayment (demo_request ''10:00'' ''11:00'' True)"
    by (simp add: demo_request_def)
  from addReservation_initial_payment [OF booked] tbl pay booked show ?thesis
    by simp
qed

section \<open>Payment updates\<close>

text \<open>
  Claim C10. \<open>updateReservationPayment\<close> with neither \<open>paymentStatus\<close> nor
  \<open>paymentProofUrl\<close> defined returns without an error and with the state as it was: the
  store, the read model, the error text and the log of issued requests (so no update and
  no refreshing read was sent).
\<close>

theorem updateReservationPayment_empty_updates:
  "updateReservationPayment env st rid \<lparr>upd_paymentStatus = None, upd_paymentProofUrl = None\<rparr>
     = (None, st)"
  by (simp add: updateReservationPayment_def build_payload_def payload_empty_def)

theorem updateReservationPayment_empty_updates_witness:
  "updateReservationPayment demo_env (demo_state (Some demo_admin)) ''r2''
     \<lparr>upd_paymentStatus = None, upd_paymentProofUrl = None\<rparr> =
   (None, demo_state (Some demo_admin))"
  using updateReservationPayment_empty_updates [of demo_env "demo_state (Some demo_admin)" "''r2''"]
  by simp

text \<open>
  Claim C4, as the code has it. After a successful \<open>updateReservationPayment\<close> that
  defines \<open>paymentStatus\<close>, the targeted rows carry that status; for a status other than
  \<open>verified\<close> both audit columns are null; for \<open>verified\<close> the verification time is
  set, and the verifier is set when a principal is signed in. With a principal signed in,
  every successful call preserves the invariant that each audit column is set exactly when
  the status is \<open>verified\<close>.
\<close>

theorem updateReservationPayment_audit_fields:
  assumes "fst (updateReservationPayment env st rid updates) = None"
  shows
   "(\<forall>s. upd_paymentStatus updates = Some s \<longrightarrow>
       (\<forall>r \<in> set (reservations_tbl (store (snd (updateReservationPayment env st rid updates)))).
          row_id r = rid \<longrightarrow>
            payment_status r = s \<and>
            (s \<noteq> verified \<longrightarrow> payment_verified_at r = None \<and> payment_verified_by r = None) \<and>
            (s = verified \<longrightarrow> payment_verified_at r \<noteq> None \<and>
                                (user st \<noteq> None \<longrightarrow> payment_verified_by r \<noteq> None)))) \<and>
    (user st \<noteq> None \<longrightarrow>
       (\<forall>r \<in> set (reservations_tbl (store st)).
          (payment_verified_at r \<noteq> None \<longleftrightarrow> payment_status r = verified) \<and>
          (payment_verified_by r \<noteq> None \<longleftrightarrow> payment_status r = verified)) \<longrightarrow>
       (\<forall>r \<in> set (reservations_tbl (store (snd (updateReservationPayment env st rid updates)))).
          (payment_verified_at r \<noteq> None \<longleftrightarrow> payment_status r = verified) \<and>
          (payment_verified_by r \<noteq> None \<longleftrightarrow> payment_status r = verified)))"
proof -
  let ?p = "build_payload (now env) (user st) updates"
  let ?tbl' = "reservations_tbl (store (snd (updateReservationPayment env st rid updates)))"
  have tbl': "set ?tbl' = (\<lambda>x. if row_id x = rid then apply_payload ?p x else x) ` set (reservations_tbl (store st))"
    unfolding updateReservationPayment_store [OF assms] update_rows_tbl set_map ..
  have fields: "payment_status (apply_payload ?p x) = s \<and>
      payment_verified_at (apply_payload ?p x) = (if s = verified then Some (now env) else None) \<and>
      payment_verified_by (apply_payload ?p x) =
        (if s = verified then map_option user_uid (user st) else None)"
    if "upd_paymentStatus updates = Some s" for s x
    by (simp add: apply_payload_sel build_payload_status [OF that])
  have untouched: "payment_status (apply_payload ?p x) = payment_status x \<and>
      payment_verified_at (apply_payload ?p x) = payment_verified_at x \<and>
      payment_verified_by (apply_payload ?p x) = payment_verified_by x"
    if "upd_paymentStatus updates = None" for x
    using that by (simp add: apply_payload_sel build_payload_def Let_def split: option.splits)
  have first: "payment_status r = s \<and>
            (s \<noteq> verified \<longrightarrow> payment_verified_at r = None \<and> payment_verified_by r = None) \<and>
            (s = verified \<longrightarrow> payment_verified_at r \<noteq> None \<and>
                                (user st \<noteq> None \<longrightarrow> payment_verified_by r \<noteq> None))"
    if s: "upd_paymentStatus updates = Some s" and r: "r \<in> set ?tbl'" and rid: "row_id r = rid" for s r
  proof -
    from r obtain x where x: "r = (if row_id x = rid then apply_payload ?p x else x)"
      unfolding tbl' by blast
    with rid have "r = apply_payload ?p x"
      by (simp add: apply_payload_sel split: if_splits)
    with fields [OF s, of x] show ?thesis by auto
  qed
  have second: "(payment_verified_at r \<noteq> None \<longleftrightarrow> payment_status r = verified) \<and>
          (payment_verified_by r \<noteq> None \<longleftrightarrow> payment_status r = verified)"
    if u: "user st \<noteq> None"
      and inv: "\<forall>r \<in> set (reservations_tbl (store st)).
          (payment_verified_at r \<noteq> None \<longleftrightarrow> payment_status r = verified) \<and>
          (payment_verified_by r \<noteq> None \<longleftrightarrow> payment_status r = verified)"
      and r: "r \<in> set ?tbl'" for r
  proof -
    from r obtain x where xin: "x \<in> set (reservations_tbl (store st))"
      and x: "r = (if row_id x = rid then apply_payload ?p x else x)"
      unfolding tbl' by blast
    show ?thesis
    proof (cases "row_id x = rid")
      case False
      with x inv xin show ?thesis by simp
    next
      case True
      with x have rx: "r = apply_payload ?p x" by simp
      show ?thesis
      proof (cases "upd_paymentStatus updates")
        case None
        from untouched [OF None, of x] inv xin show ?thesis unfolding rx by simp
      next
        case (Some s)
        from fields [OF Some, of x] u show ?thesis unfolding rx by auto
      qed
    qed
  qed
  from first second show ?thesis by blast
qed

theorem updateReservationPayment_audit_fields_witness:
  "fst (updateReservationPayment demo_env (demo_state (Some demo_admin)) ''r2''
          \<lparr>upd_paymentStatus = Some verified, upd_paymentProofUrl = None\<rparr>) = None \<and>
   user (demo_state (Some demo_admin)) \<noteq> None \<and>
   reservations_tbl (store (snd (updateReservationPayment demo_env (demo_state (Some demo_admin)) ''r2''
          \<lparr>upd_paymentStatus = Some verified, upd_paymentProofUrl = None\<rparr>))) =
     [demo_free_row, demo_paid_row\<lparr>payment_verified_at := Some 5000\<rparr>] \<and>
   row_id (demo_paid_row\<lparr>payment_verified_at := Some 5000\<rparr>) = ''r2'' \<and>
   payment_status (demo_paid_row\<lparr>payment_verified_at := Some 5000\<rparr>) = verified \<and>
   payment_verified_at (demo_paid_row\<lparr>payment_verified_at := Some 5000\<rparr>) \<noteq> None \<and>
   payment_verified_by (demo_paid_row\<lparr>payment_verified_at := Some 5000\<rparr>) \<noteq> None"
proof -
  let ?u = "\<lparr>upd_paymentStatus = Some verified, upd_paymentProofUrl = None\<rparr>"
  let ?r = "demo_paid_row\<lparr>payment_verified_at := Some 5000\<rparr>"
  let ?st = "demo_state (Some demo_admin)"
  have ok: "fst (updateReservationPayment demo_env ?st ''r2'' ?u) = None"
    by (simp add: payment_run_defs demo_defs)
  have st: "upd_paymentStatus ?u = Some verified" by simp
  have tbl: "reservations_tbl (store (snd (updateReservationPayment demo_env ?st ''r2'' ?u))) =
               [demo_free_row, ?r]"
    by (simp add: payment_run_defs demo_defs)
  have mem: "?r \<in> set (reservations_tbl (store (snd (updateReservationPayment demo_env ?st ''r2'' ?u))))"
    unfolding tbl by simp
  have rid: "row_id ?r = ''r2''" by (simp add: demo_paid_row_def)
  have usr: "user ?st \<noteq> None" by (simp add: demo_state_def)
  from updateReservationPayment_audit_fields [OF ok] st mem rid usr
  have a: "payment_status ?r = verified \<and> payment_verified_at ?r \<noteq> None \<and>
           payment_verified_by ?r \<noteq> None"
    by blast
  from ok usr tbl rid a show ?thesis by blast
qed

text \<open>
  Claim C4 as stated fails when no principal is signed in: the call writes status
  \<open>verified\<close> with a null verifier.
\<close>

theorem updateReservationPayment_no_user_counterexample:
  "fst (updateReservationPayment demo_env (demo_state None) ''r2''
          \<lparr>upd_paymentStatus = Some verified, upd_paymentProofUrl = None\<rparr>) = None \<and>
   map row_id (reservations_tbl (store (snd (updateReservationPayment demo_env (demo_state None) ''r2''
          \<lparr>upd_paymentStatus = Some verified, upd_paymentProofUrl = None\<rparr>)))) = [''r1'', ''r2''] \<and>
   map payment_status (reservations_tbl (store (snd (updateReservationPayment demo_env (demo_state None) ''r2''
          \<lparr>upd_paymentStatus = Some verified, upd_paymentProofUrl = None\<rparr>)))) = [not_required, verified] \<and>
   map payment_verified_by (reservations_tbl (store (snd (updateReservationPayment demo_env (demo_state None) ''r2''
          \<lparr>upd_paymentStatus = Some verified, upd_paymentProofUrl = None\<rparr>)))) = [None, None]"
  by (simp add: payment_run_defs demo_defs)

text \<open>
  Claim C5, as the code has it. \<open>updateReservationPayment\<close> never looks at
  \<open>requires_payment\<close>: a call that defines \<open>paymentStatus\<close> fails only when the store
  rejects the update, and otherwise leaves every row's id and \<open>requires_payment\<close> as they
  were and gives the targeted rows the requested status; and whatever value the
  \<open>requires_payment\<close> flags of the table are set to beforehand, the error result is the
  same and the resulting table is the same up to those flags.
\<close>

theorem updateReservationPayment_ignores_requiresPayment:
  assumes "upd_paymentStatus updates = Some s"
  shows "(fst (updateReservationPayment env st rid updates) = None \<longleftrightarrow>
            update_outcome env = Success ()) \<and>
         (fst (updateReservationPayment env st rid updates) = None \<longrightarrow>
            map requires_payment (reservations_tbl (store (snd (updateReservationPayment env st rid updates))))
              = map requires_payment (reservations_tbl (store st)) \<and>
            map row_id (reservations_tbl (store (snd (updateReservationPayment env st rid updates))))
              = map row_id (reservations_tbl (store st)) \<and>
            (\<forall>r \<in> set (reservations_tbl (store (snd (updateReservationPayment env st rid updates)))).
               row_id r = rid \<longrightarrow> payment_status r = s)) \<and>
         (\<forall>b. fst (updateReservationPayment env
                     (st\<lparr>store := (store st)\<lparr>reservations_tbl :=
                        map (\<lambda>r. r\<lparr>requires_payment := b\<rparr>) (reservations_tbl (store st))\<rparr>\<rparr>)
                     rid updates) =
               fst (updateReservationPayment env st rid updates) \<and>
              reservations_tbl (store (snd (updateReservationPayment env
                     (st\<lparr>store := (store st)\<lparr>reservations_tbl :=
                        map (\<lambda>r. r\<lparr>requires_payment := b\<rparr>) (reservations_tbl (store st))\<rparr>\<rparr>)
                     rid updates))) =
               map (\<lambda>r. r\<lparr>requires_payment := b\<rparr>)
                 (reservations_tbl (store (snd (updateReservationPayment env st rid updates)))))"
proof -
  let ?p = "build_payload (now env) (user st) updates"
  have b: "payment_status (apply_payload ?p x) = s" for x
    by (simp add: apply_payload_sel build_payload_status [OF assms])
  have c: "\<forall>r \<in> set (reservations_tbl (update_rows ?p rid (store st))).
               row_id r = rid \<longrightarrow> payment_status r = s"
    unfolding update_rows_tbl set_map using b by auto
  have first: "(fst (updateReservationPayment env st rid updates) = None \<longleftrightarrow>
            update_outcome env = Success ()) \<and>
         (fst (updateReservationPayment env st rid updates) = None \<longrightarrow>
            map requires_payment (reservations_tbl (store (snd (updateReservationPayment env st rid updates))))
              = map requires_payment (reservations_tbl (store st)) \<and>
            map row_id (reservations_tbl (store (snd (updateReservationPayment env st rid updates))))
              = map row_id (reservations_tbl (store st)) \<and>
            (\<forall>r \<in> set (reservations_tbl (store (snd (updateReservationPayment env st rid updates)))).
               row_id r = rid \<longrightarrow> payment_status r = s))"
    using updateReservationPayment_ok_iff [OF assms, of env st rid] c
    by (simp add: updateReservationPayment_store map_sel_update_rows)
  have second: "fst (updateReservationPayment env
                     (st\<lparr>store := (store st)\<lparr>reservations_tbl :=
                        map (\<lambda>r. r\<lparr>requires_payment := b\<rparr>) (reservations_tbl (store st))\<rparr>\<rparr>)
                     rid updates) =
               fst (updateReservationPayment env st rid updates) \<and>
              reservations_tbl (store (snd (updateReservationPayment env
                     (st\<lparr>store := (store st)\<lparr>reservations_tbl :=
                        map (\<lambda>r. r\<lparr>requires_payment := b\<rparr>) (reservations_tbl (store st))\<rparr>\<rparr>)
                     rid updates))) =
               map (\<lambda>r. r\<lparr>requires_payment := b\<rparr>)
                 (reservations_tbl (store (snd (updateReservationPayment env st rid updates))))" for b
  proof -
    let ?st = "st\<lparr>store := (store st)\<lparr>reservations_tbl :=
                        map (\<lambda>r. r\<lparr>requires_payment := b\<rparr>) (reservations_tbl (store st))\<rparr>\<rparr>"
    have f: "fst (updateReservationPayment env ?st rid updates) =
             fst (updateReservationPayment env st rid updates)"
      by (simp add: updateReservationPayment_fst)
    show ?thesis
    proof (cases "fst (updateReservationPayment env st rid updates) = None")
      case True
      with f have ok': "fst (updateReservationPayment env ?st rid updates) = None" by simp
      show ?thesis
        unfolding updateReservationPayment_store [OF True] updateReservationPayment_store [OF ok']
        using f by (simp add: update_rows_flags)
    next
      case False
      with f have bad': "fst (updateReservationPayment env ?st rid updates) \<noteq> None" by simp
      show ?thesis
        unfolding updateReservationPayment_store_failed [OF False]
          updateReservationPayment_store_failed [OF bad']
        using f by simp
    qed
  qed
  from first second show ?thesis by blast
qed

theorem updateReservationPayment_ignores_requiresPayment_witness:
  "upd_paymentStatus \<lparr>upd_paymentStatus = Some submitted,
                       upd_paymentProofUrl = Some (Some ''https://proofs/r1.png'')\<rparr>
     = Some submitted \<and>
   update_outcome demo_env = Success () \<and>
   requires_payment demo_free_row = False \<and>
   fst (updateReservationPayment demo_env (demo_state (Some demo_member)) ''r1''
          \<lparr>upd_paymentStatus = Some submitted,
           upd_paymentProofUrl = Some (Some ''https://proofs/r1.png'')\<rparr>) = None \<and>
   reservations_tbl (store (snd (updateReservationPayment demo_env
       (demo_state (Some demo_member)) ''r1''
       \<lparr>upd_paymentStatus = Some submitted,
        upd_paymentProofUrl = Some (Some ''https://proofs/r1.png'')\<rparr>))) =
     [demo_free_row\<lparr>payment_status := submitted,
                     payment_proof_url := Some ''https://proofs/r1.png''\<rparr>,
      demo_paid_row] \<and>
   map requires_payment (reservations_tbl (store (snd (updateReservationPayment demo_env
       (demo_state (Some demo_member)) ''r1''
       \<lparr>upd_paymentStatus = Some submitted,
        upd_paymentProofUrl = Some (Some ''https://proofs/r1.png'')\<rparr>))))
     = [False, True] \<and>
   reservations_tbl (store (snd (updateReservationPayment demo_env
       ((demo_state (Some demo_member))
          \<lparr>store := (store (demo_state (Some demo_member)))\<lparr>reservations_tbl :=
             map (\<lambda>r. r\<lparr>requires_payment := True\<rparr>)
               (reservations_tbl (store (demo_state (Some demo_member))))\<rparr>\<rparr>)
       ''r1''
       \<lparr>upd_paymentStatus = Some submitted,
        upd_paymentProofUrl = Some (Some ''https://proofs/r1.png'')\<rparr>))) =
     [demo_free_row\<lparr>payment_status := submitted,
                     payment_proof_url := Some ''https://proofs/r1.png'',
                     requires_payment := True\<rparr>,
      demo_paid_row]"
proof -
  let ?u = "\<lparr>upd_paymentStatus = Some submitted,
             upd_paymentProofUrl = Some (Some ''https://proofs/r1.png'')\<rparr>"
  let ?st = "demo_state (Some demo_member)"
  have st: "upd_paymentStatus ?u = Some submitted" by simp
  have acc: "update_outcome demo_env = Success ()" by (simp add: demo_env_def)
  have old: "map requires_payment (reservations_tbl (store ?st)) = [False, True]"
    by (simp add: demo_defs)
  have free: "requires_payment demo_free_row = False" by (simp add: demo_free_row_def)
  have paid: "demo_paid_row\<lparr>requires_payment := True\<rparr> = demo_paid_row"
    by (simp add: demo_paid_row_def)
  have tbl: "reservations_tbl (store (snd (updateReservationPayment demo_env ?st ''r1'' ?u))) =
     [demo_free_row\<lparr>payment_status := submitted,
                     payment_proof_url := Some ''https://proofs/r1.png''\<rparr>,
      demo_paid_row]"
    by (simp add: payment_run_defs demo_defs)
  note fact = updateReservationPayment_ignores_requiresPayment [OF st, of demo_env ?st "''r1''"]
  from fact acc old
  have run: "fst (updateReservationPayment demo_env ?st ''r1'' ?u) = None \<and>
        map requires_payment
          (reservations_tbl (store (snd (updateReservationPayment demo_env ?st ''r1'' ?u))))
          = [False, True]"
    by simp
  from fact have "reservations_tbl (store (snd (updateReservationPayment demo_env
       (?st\<lparr>store := (store ?st)\<lparr>reservations_tbl :=
             map (\<lambda>r. r\<lparr>requires_payment := True\<rparr>) (reservations_tbl (store ?st))\<rparr>\<rparr>)
       ''r1'' ?u))) =
     map (\<lambda>r. r\<lparr>requires_payment := True\<rparr>)
       (reservations_tbl (store (snd (updateReservationPayment demo_env ?st ''r1'' ?u))))"
    by blast
  then have flags: "reservations_tbl (store (snd (updateReservationPayment demo_env
       (?st\<lparr>store := (store ?st)\<lparr>reservations_tbl :=
             map (\<lambda>r. r\<lparr>requires_payment := True\<rparr>) (reservations_tbl (store ?st))\<rparr>\<rparr>)
       ''r1'' ?u))) =
     [demo_free_row\<lparr>payment_status := submitted,
                     payment_proof_url := Some ''https://proofs/r1.png'',
                     requires_payment := True\<rparr>,
      demo_paid_row]"
    unfolding tbl by (simp add: paid)
  from st acc free run tbl flags show ?thesis by blast
qed

text \<open>
  Claim C5 as stated fails: marking the payment of reservation \<open>r1\<close>, which requires no
  payment, as pending is accepted and changes its status from \<open>not_required\<close>.
\<close>

theorem updateReservationPayment_not_required_counterexample:
  "row_id demo_free_row = ''r1'' \<and> requires_payment demo_free_row = False \<and>
   payment_status demo_free_row = not_required \<and>
   reservations_tbl (store (demo_state (Some demo_admin))) = [demo_free_row, demo_paid_row] \<and>
   fst (updateReservationPayment demo_env (demo_state (Some demo_admin)) ''r1''
          \<lparr>upd_paymentStatus = Some pending, upd_paymentProofUrl = None\<rparr>) = None \<and>
   reservations_tbl (store (snd (updateReservationPayment demo_env (demo_state (Some demo_admin)) ''r1''
          \<lparr>upd_paymentStatus = Some pending, upd_paymentProofUrl = None\<rparr>))) =
     [demo_free_row\<lparr>payment_status := pending\<rparr>, demo_paid_row]"
  by (simp add: payment_run_defs demo_defs)



section \<open>Role-dependent read model\<close>

text \<open>
  Claim C9, as the code has it. After a successful load, an administrator's read model
  holds, for every row of the table (newest first), a reservation with the requester's id
  and with the name and phone of the requester's profile (empty where the profile or the
  field is missing). A member's read model also holds one reservation for every row of the
  table, whoever the requester is, but none carries a name or a phone, and it does not
  depend on the profiles table. For any requester id, \<open>getUserReservations\<close> on the
  loaded read model returns exactly the non-cancelled rows of that requester in the store,
  newest first.
\<close>

theorem loadReservations_role_redaction:
  assumes "user st = Some u" and "load_read_ok env"
  shows
   "(role u = admin \<longrightarrow>
       list_all2
         (\<lambda>reservation r.
            userId reservation = user_id r \<and>
            userName reservation =
              (case profiles_tbl (store st) (user_id r) of
                 None \<Rightarrow> []
               | Some p \<Rightarrow> (case full_name p of None \<Rightarrow> [] | Some n \<Rightarrow> n)) \<and>
            userContact reservation =
              (case profiles_tbl (store st) (user_id r) of
                 None \<Rightarrow> []
               | Some p \<Rightarrow> (case phone p of None \<Rightarrow> [] | Some n \<Rightarrow> n)))
         (reservations (loadReservations env st))
         (sort_key (\<lambda>r. - created_at r) (reservations_tbl (store st)))) \<and>
    (role u = member \<longrightarrow>
       list_all2
         (\<lambda>reservation r.
            reservationId reservation = row_id r \<and> userId reservation = user_id r \<and>
            userName reservation = [] \<and> userContact reservation = [])
         (reservations (loadReservations env st))
         (sort_key (\<lambda>r. - created_at r) (reservations_tbl (store st))) \<and>
       (\<forall>profiles'.
          reservations (loadReservations env (st\<lparr>store := (store st)\<lparr>profiles_tbl := profiles'\<rparr>\<rparr>)) =
          reservations (loadReservations env st))) \<and>
    (\<forall>uid.
       list_all2
         (\<lambda>reservation r. reservationId reservation = row_id r \<and> userId reservation = uid)
         (getUserReservations (loadReservations env st) uid)
         (sort_key (\<lambda>r. - created_at r)
            (filter (\<lambda>r. user_id r = uid \<and> row_status r \<noteq> cancelled)
               (reservations_tbl (store st)))))"
proof (intro conjI impI allI)
  assume a: "role u = admin"
  show "list_all2
         (\<lambda>reservation r.
            userId reservation = user_id r \<and>
            userName reservation =
              (case profiles_tbl (store st) (user_id r) of
                 None \<Rightarrow> []
               | Some p \<Rightarrow> (case full_name p of None \<Rightarrow> [] | Some n \<Rightarrow> n)) \<and>
            userContact reservation =
              (case profiles_tbl (store st) (user_id r) of
                 None \<Rightarrow> []
               | Some p \<Rightarrow> (case phone p of None \<Rightarrow> [] | Some n \<Rightarrow> n)))
         (reservations (loadReservations env st))
         (sort_key (\<lambda>r. - created_at r) (reservations_tbl (store st)))"
    unfolding reservations_loadReservations [OF assms] select_reservations_def
    by (simp add: list_all2_map1 list_all2_same formatReservation_userId
          formatReservation_admin [OF a] a or_empty_def split: option.splits)
next
  assume m: "role u = member"
  show "list_all2
         (\<lambda>reservation r.
            reservationId reservation = row_id r \<and> userId reservation = user_id r \<and>
            userName reservation = [] \<and> userContact reservation = [])
         (reservations (loadReservations env st))
         (sort_key (\<lambda>r. - created_at r) (reservations_tbl (store st)))"
    unfolding reservations_loadReservations [OF assms] select_reservations_def
    by (simp add: list_all2_map1 list_all2_same formatReservation_userId formatReservation_sel
          formatReservation_member [OF m])
next
  fix profiles'
  assume m: "role u = member"
  show "reservations (loadReservations env (st\<lparr>store := (store st)\<lparr>profiles_tbl := profiles'\<rparr>\<rparr>)) =
          reservations (loadReservations env st)"
    using assms m by (simp add: reservations_loadReservations select_reservations_profiles)
next
  fix uid
  have sel: "\<forall>r \<in> set (filter (\<lambda>r. user_id r = uid \<and> row_status r \<noteq> cancelled)
               (reservations_tbl (store st))). user_id r = uid"
    by simp
  show "list_all2
         (\<lambda>reservation r. reservationId reservation = row_id r \<and> userId reservation = uid)
         (getUserReservations (loadReservations env st) uid)
         (sort_key (\<lambda>r. - created_at r)
            (filter (\<lambda>r. user_id r = uid \<and> row_status r \<noteq> cancelled)
               (reservations_tbl (store st))))"
    unfolding getUserReservations_loadReservations [OF assms]
    using sel
    by (simp add: list_all2_map1 list_all2_same formatReservation_userId formatReservation_sel)
qed

theorem loadReservations_role_redaction_witness:
  "user (demo_state (Some demo_admin)) = Some demo_admin \<and> role demo_admin = admin \<and>
   user (demo_state (Some demo_member)) = Some demo_member \<and> role demo_member = member \<and>
   load_read_ok demo_env \<and>
   map userName (reservations (loadReservations demo_env (demo_state (Some demo_admin))))
     = [''Luis'', ''Ana''] \<and>
   map userContact (reservations (loadReservations demo_env (demo_state (Some demo_admin))))
     = ['''', ''555-0101''] \<and>
   map reservationId (reservations (loadReservations demo_env (demo_state (Some demo_member))))
     = [''r2'', ''r1''] \<and>
   map userName (reservations (loadReservations demo_env (demo_state (Some demo_member))))
     = ['''', ''''] \<and>
   map userContact (reservations (loadReservations demo_env (demo_state (Some demo_member))))
     = ['''', ''''] \<and>
   map reservationId
     (getUserReservations (loadReservations demo_env (demo_state (Some demo_member)))
        (user_uid demo_member)) = [''r1''] \<and>
   map userId
     (getUserReservations (loadReservations demo_env (demo_state (Some demo_member)))
        (user_uid demo_member)) = [user_uid demo_member]"
proof -
  have ua: "user (demo_state (Some demo_admin)) = Some demo_admin"
    and um: "user (demo_state (Some demo_member)) = Some demo_member"
    by (simp_all add: demo_state_def)
  have ra: "role demo_admin = admin" and rm: "role demo_member = member"
    by (simp_all add: demo_admin_def demo_member_def)
  have ok: "load_read_ok demo_env" by (simp add: demo_env_def)
  have adm: "map userName (reservations (loadReservations demo_env (demo_state (Some demo_admin))))
               = [''Luis'', ''Ana''] \<and>
             map userContact (reservations (loadReservations demo_env (demo_state (Some demo_admin))))
               = ['''', ''555-0101'']"
    using loadReservations_role_redaction [OF ua ok]
    by (simp add: payment_run_defs demo_defs)
  have ids: "map reservationId (reservations (loadReservations demo_env (demo_state (Some demo_member))))
               = [''r2'', ''r1''] \<and>
             map reservationId
               (getUserReservations (loadReservations demo_env (demo_state (Some demo_member)))
                  (user_uid demo_member)) = [''r1'']"
    by (simp add: payment_run_defs getUserReservations_def demo_defs)
  have red: "map userName (reservations (loadReservations demo_env (demo_state (Some demo_member))))
               = ['''', ''''] \<and>
             map userContact (reservations (loadReservations demo_env (demo_state (Some demo_member))))
               = ['''', '''']"
    using loadReservations_role_redaction [OF um ok]
    by (simp add: payment_run_defs demo_defs)
  have own: "map userId
     (getUserReservations (loadReservations demo_env (demo_state (Some demo_member)))
        (user_uid demo_member)) = [user_uid demo_member]"
    by (simp add: payment_run_defs getUserReservations_def demo_defs)
  from ua um ra rm ok adm ids red own show ?thesis by blast
qed

text \<open>
  Claim C9 as stated fails for the loaded set: the read model of member \<open>u1\<close> holds the
  reservation \<open>r2\<close> of requester \<open>u2\<close>, with its proof URL.
\<close>

theorem loadReservations_member_sees_others_counterexample:
  "user (demo_state (Some demo_member)) = Some demo_member \<and> role demo_member = member \<and>
   user_uid demo_member = ''u1'' \<and> load_read_ok demo_env \<and>
   map reservationId (reservations (loadReservations demo_env (demo_state (Some demo_member))))
     = [''r2'', ''r1''] \<and>
   map userId (reservations (loadReservations demo_env (demo_state (Some demo_member))))
     = [''u2'', ''u1''] \<and>
   map paymentProofUrl (reservations (loadReservations demo_env (demo_state (Some demo_member))))
     = [Some ''https://proofs/r2.png'', None]"
  by (simp add: payment_run_defs demo_defs)

section \<open>Cancellation\<close>

text \<open>
  Claim C7. The advisory rule reports a reservation cancellable exactly when its status is
  neither \<open>cancelled\<close> nor \<open>completed\<close> and its start is at least 24 hours after the
  current instant; a reservation of another status that starts in 23 hours is not
  cancellable, and one that starts in 25 hours is.
\<close>

theorem canCancelReservation_rule:
  "(canCancelReservation startInstant nowMs r \<longleftrightarrow>
      status r \<noteq> cancelled \<and> status r \<noteq> completed \<and>
      startInstant (date r) (startTime r) \<ge> nowMs + 24 * 3600000) \<and>
   (status r \<noteq> cancelled \<and> status r \<noteq> completed \<and>
      startInstant (date r) (startTime r) = nowMs + 23 * 3600000 \<longrightarrow>
      \<not> canCancelReservation startInstant nowMs r) \<and>
   (status r \<noteq> cancelled \<and> status r \<noteq> completed \<and>
      startInstant (date r) (startTime r) = nowMs + 25 * 3600000 \<longrightarrow>
      canCancelReservation startInstant nowMs r)"
  by (auto simp: canCancelReservation_def isWithin24Hours_def)

theorem canCancelReservation_rule_witness:
  "status demo_reservation \<noteq> cancelled \<and> status demo_reservation \<noteq> completed \<and>
   \<not> canCancelReservation (\<lambda>day t. 1000 + 23 * 3600000) 1000 demo_reservation \<and>
   canCancelReservation (\<lambda>day t. 1000 + 25 * 3600000) 1000 demo_reservation \<and>
   \<not> canCancelReservation (\<lambda>day t. 1000 + 25 * 3600000) 1000
        (demo_reservation\<lparr>status := completed\<rparr>)"
proof -
  have st: "status demo_reservation = confirmed"
    by (simp add: demo_reservation_def formatReservation_def demo_free_row_def)
  from st
    canCancelReservation_rule [of "\<lambda>day t. 1000 + 23 * 3600000" 1000 demo_reservation]
    canCancelReservation_rule [of "\<lambda>day t. 1000 + 25 * 3600000" 1000 demo_reservation]
    canCancelReservation_rule [of "\<lambda>day t. 1000 + 25 * 3600000" 1000
       "demo_reservation\<lparr>status := completed\<rparr>"]
  show ?thesis by simp
qed

end
